theory Spec2Isabelle
  imports Complex_Main "HOL-Library.AList"
begin

section \<open>Python values, exceptions and lists\<close>

text \<open>
  The exceptions the modelled code can raise. \<open>ValueError\<close> carries its message;
  \<open>NameError\<close> carries the unbound name.
\<close>

datatype error = IndexError | TypeError | ValueError string | NameError string

text \<open>
  Python list indexing: a negative index counts from the end, and an index outside
  \<open>-len .. len - 1\<close> raises \<open>IndexError\<close>.
\<close>

definition py_index :: "'a list \<Rightarrow> int \<Rightarrow> error + nat" where
  "py_index xs i =
     (if 0 \<le> i \<and> i < int (length xs) then Inr (nat i)
      else if i < 0 \<and> - int (length xs) \<le> i then Inr (nat (int (length xs) + i))
      else Inl IndexError)"

definition py_getitem :: "'a list \<Rightarrow> int \<Rightarrow> error + 'a" where
  "py_getitem xs i = (case py_index xs i of Inl e \<Rightarrow> Inl e | Inr j \<Rightarrow> Inr (xs ! j))"

definition py_setitem :: "'a list \<Rightarrow> int \<Rightarrow> 'a \<Rightarrow> error + 'a list" where
  "py_setitem xs i v = (case py_index xs i of Inl e \<Rightarrow> Inl e | Inr j \<Rightarrow> Inr (xs[j := v]))"

text \<open>
  The read-modify-write statement \<open>xs[i] = f(xs[i])\<close> (also \<open>xs[i] += a\<close> and
  \<open>xs[i] -= a\<close>): the read raises before anything is written.
\<close>

definition py_moditem :: "'a list \<Rightarrow> int \<Rightarrow> ('a \<Rightarrow> 'a) \<Rightarrow> error + 'a list" where
  "py_moditem xs i f =
     (case py_getitem xs i of Inl e \<Rightarrow> Inl e | Inr x \<Rightarrow> py_setitem xs i (f x))"

text \<open>
  A block of statements that mutate one list in place. The block stops at the first
  statement that raises; the list keeps what the earlier statements wrote.
\<close>

fun exec_stmts :: "('a list \<Rightarrow> error + 'a list) list \<Rightarrow> 'a list \<Rightarrow> error option \<times> 'a list" where
  "exec_stmts [] xs = (None, xs)"
| "exec_stmts (stmt # stmts) xs =
     (case stmt xs of Inl e \<Rightarrow> (Some e, xs) | Inr xs' \<Rightarrow> exec_stmts stmts xs')"

text \<open>
  Angles are Python floats; they are modelled as real numbers, so \<open>2 * np.pi\<close> is
  \<open>2 * pi\<close> and \<open>x % m\<close> (for a positive modulus) is \<open>x - m * floor (x / m)\<close>.
  Rounding, infinities and NaN are outside the model.
\<close>

definition two_pi :: real where
  "two_pi = 2 * pi"

definition pymod :: "real \<Rightarrow> real \<Rightarrow> real" where
  "pymod x m = x - m * of_int \<lfloor>x / m\<rfloor>"

section \<open>gflownet/utils/common.py\<close>

datatype device = Cuda | Cpu

datatype dtype = Float16 | Float32 | Float64

text \<open>\<open>str.lower\<close> on ASCII letters.\<close>

definition lower_char :: "char \<Rightarrow> char" where
  "lower_char c =
     (let n = (of_char c :: nat) in if 65 \<le> n \<and> n \<le> 90 then char_of (n + 32) else c)"

definition lower :: "string \<Rightarrow> string" where
  "lower s = map lower_char s"

text \<open>\<open>torch.cuda.is_available()\<close> is a fact of the machine: a parameter.\<close>

definition set_device :: "bool \<Rightarrow> string \<Rightarrow> device" where
  "set_device cuda_is_available device =
     (if lower device = ''cuda'' \<and> cuda_is_available then Cuda else Cpu)"

definition set_float_precision :: "int \<Rightarrow> error + dtype" where
  "set_float_precision precision =
     (if precision = 16 then Inr Float16
      else if precision = 32 then Inr Float32
      else if precision = 64 then Inr Float64
      else Inl (ValueError ''Precision must be one of [16, 32, 64]''))"

text \<open>
  \<open>torch2np\<close>: a tensor on the accelerator is detached and moved to the CPU first; the
  data come back as an array in every case.
\<close>

record 'a tensor =
  is_cuda :: bool
  data :: "'a list"

definition cpu :: "'a tensor \<Rightarrow> 'a tensor" where
  "cpu x = x\<lparr>is_cuda := False\<rparr>"

definition torch2np :: "'a tensor \<Rightarrow> 'a list" where
  "torch2np x = (let x = (if is_cuda x then cpu x else x) in data x)"

text \<open>
  A nested configuration: a value, or a dictionary (in insertion order) of
  configurations. \<open>dict(items)\<close> keeps the position of a key's first occurrence and the
  value of its last.
\<close>

datatype 'v config = Leaf 'v | Dict "(string \<times> 'v config) list"

definition dict :: "(string \<times> 'v) list \<Rightarrow> (string \<times> 'v) list" where
  "dict items = fold (\<lambda>(k, v). AList.update k v) items []"

fun flatten_items :: "(string \<times> 'v config) list \<Rightarrow> string \<Rightarrow> string \<Rightarrow> (string \<times> 'v) list"
  and flatten_config :: "(string \<times> 'v config) list \<Rightarrow> string \<Rightarrow> string \<Rightarrow> (string \<times> 'v) list"
where
  "flatten_items [] parent_key sep = []"
| "flatten_items ((k, v) # rest) parent_key sep =
     (let new_key = (if parent_key \<noteq> [] then parent_key @ sep @ k else k) in
      (case v of
         Dict d \<Rightarrow> flatten_config d new_key sep
       | Leaf x \<Rightarrow> [(new_key, x)])
      @ flatten_items rest parent_key sep)"
| "flatten_config d parent_key sep = dict (flatten_items d parent_key sep)"

text \<open>
  \<open>handle_logdir\<close> reads the names \<open>config\<close>, \<open>Path\<close>, \<open>yaml\<close>, \<open>numpy2python\<close>,
  \<open>namespace2dict\<close> and \<open>main\<close>, none of which the module binds: its first
  expression, \<open>"logdir" in config\<close>, raises \<open>NameError\<close>.
\<close>

definition module_globals :: "string list" where
  "module_globals =
     [''MutableMapping'', ''torch'', ''np'', ''set_device'', ''set_float_precision'',
      ''torch2np'', ''flatten_config'', ''handle_logdir'']"

definition handle_logdir :: "error + unit" where
  "handle_logdir =
     (if ''config'' \<in> set module_globals then Inr () else Inl (NameError ''config''))"

text \<open>A call of one of the module's operations, and what it returns or raises.\<close>

datatype ('a, 'v) common_call =
    SetDevice bool string
  | SetFloatPrecision int
  | Torch2np "'a tensor"
  | FlattenConfig "(string \<times> 'v config) list" string string
  | HandleLogdir

datatype ('a, 'v) common_value =
    VDevice device
  | VDtype dtype
  | VArray "'a list"
  | VDict "(string \<times> 'v) list"
  | VNone

definition common :: "('a, 'v) common_call \<Rightarrow> error + ('a, 'v) common_value" where
  "common c =
     (case c of
        SetDevice avail dev \<Rightarrow> Inr (VDevice (set_device avail dev))
      | SetFloatPrecision p \<Rightarrow> map_sum id VDtype (set_float_precision p)
      | Torch2np x \<Rightarrow> Inr (VArray (torch2np x))
      | FlattenConfig d parent_key sep \<Rightarrow> Inr (VDict (flatten_config d parent_key sep))
      | HandleLogdir \<Rightarrow> map_sum id (\<lambda>_. VNone) handle_logdir)"

definition is_ValueError :: "error + 'a \<Rightarrow> bool" where
  "is_ValueError r = (case r of Inl (ValueError _) \<Rightarrow> True | _ \<Rightarrow> False)"

section \<open>gflownet/envs/htorus.py\<close>

text \<open>
  A state is a Python list, an object that \<open>step\<close> and \<open>get_parents\<close> mutate in
  place. The store holds every state list created so far; a reference is the position
  of the list in the store. The elements of a state are the angles followed by the
  number of actions, all read as real numbers.
\<close>

type_synonym ref = nat

type_synonym store = "real list list"

definition new_list :: "store \<Rightarrow> real list \<Rightarrow> ref \<times> store" where
  "new_list st xs = (length st, st @ [xs])"

text \<open>An action is a tuple (dimension, magnitude).\<close>

type_synonym action = "int \<times> real"

text \<open>
  The attributes of a \<open>HybridTorus\<close> that the modelled methods read or write. The
  lists \<open>angles\<close>, \<open>source\<close> and \<open>action_space\<close> are never mutated after they are
  built, so they are held by value.
\<close>

record env =
  n_dim :: nat
  eos :: int
  length_traj :: int
  n_params_per_dim :: nat
  env_id :: "nat option"
  angles :: "real list"
  source :: "real list"
  action_space :: "(int \<times> real option) list"
  state :: ref
  n_actions :: int
  "done" :: bool

definition get_actions_space :: "env \<Rightarrow> (int \<times> real option) list" where
  "get_actions_space env =
     (let actions = map (\<lambda>d. (int d, None)) [0..<n_dim env];
          actions = actions @ [(eos env, Some 0)]
      in actions)"

definition reset :: "store \<Rightarrow> env \<Rightarrow> nat option \<Rightarrow> store \<times> env" where
  "reset st env new_id =
     (let env = env\<lparr>angles := replicate (n_dim env) 0\<rparr>;
          env = env\<lparr>n_actions := 0\<rparr>;
          (r, st) = new_list st (angles env @ [of_int (n_actions env)]);
          env = env\<lparr>state := r\<rparr>;
          env = env\<lparr>done := False\<rparr>;
          env = env\<lparr>env_id := new_id\<rparr>
      in (st, env))"

text \<open>
  The constructor, as far as the attributes above go. The fields that \<open>reset\<close> and the
  later assignments fill are given placeholders first.
\<close>

definition HybridTorus :: "store \<Rightarrow> nat \<Rightarrow> int \<Rightarrow> bool \<Rightarrow> store \<times> env" where
  "HybridTorus st n_dim0 length_traj0 do_nonzero_source_prob =
     (let env = \<lparr>n_dim = n_dim0, eos = int n_dim0, length_traj = length_traj0,
                 n_params_per_dim = (if do_nonzero_source_prob then 4 else 3),
                 env_id = None, angles = [], source = [], action_space = [],
                 state = 0, n_actions = 0, done = False\<rparr>;
          (st, env) = reset st env None;
          env = env\<lparr>source := angles env\<rparr>;
          env = env\<lparr>action_space := get_actions_space env\<rparr>
      in (st, env))"

text \<open>
  The masks only read the state, so the state argument is passed by value;
  \<open>None\<close> stands for the default, a copy of the environment's own state.
\<close>

definition get_mask_invalid_actions_forward ::
  "store \<Rightarrow> env \<Rightarrow> real list option \<Rightarrow> bool option \<Rightarrow> error + bool list" where
  "get_mask_invalid_actions_forward st env state_arg done_arg =
     (let s = (case state_arg of None \<Rightarrow> st ! state env | Some s \<Rightarrow> s);
          dn = (case done_arg of None \<Rightarrow> done env | Some b \<Rightarrow> b)
      in if dn then Inr (replicate (length (action_space env)) True)
         else case py_getitem s (- 1) of
           Inl e \<Rightarrow> Inl e
         | Inr c \<Rightarrow>
             if c \<ge> of_int (length_traj env)
             then py_setitem (replicate (length (action_space env)) True) (- 1) False
             else py_setitem (replicate (length (action_space env)) False) (- 1) True)"

text \<open>
  The message printed when more dimensions differ from the source than actions were
  taken is not modelled; the mask is returned as it is on that branch.
\<close>

definition get_mask_invalid_actions_backward ::
  "store \<Rightarrow> env \<Rightarrow> real list option \<Rightarrow> bool option \<Rightarrow> error + bool list" where
  "get_mask_invalid_actions_backward st env state_arg done_arg =
     (let s = (case state_arg of None \<Rightarrow> st ! state env | Some s \<Rightarrow> s);
          dn = (case done_arg of None \<Rightarrow> done env | Some b \<Rightarrow> b)
      in case (if dn then py_setitem (replicate (length (action_space env)) True) (- 1) False
               else py_setitem (replicate (length (action_space env)) False) (- 1) True) of
           Inl e \<Rightarrow> Inl e
         | Inr msk \<Rightarrow>
             (let noninit_states =
                    map fst (filter (\<lambda>(x, ss). x \<noteq> ss) (zip (butlast s) (source env)))
              in case py_getitem s (- 1) of
                   Inl e \<Rightarrow> Inl e
                 | Inr c \<Rightarrow>
                     if real (length noninit_states) > c then Inr msk
                     else if real (length noninit_states) = c
                             \<and> real (length noninit_states) \<ge> c - 1
                     then (case py_getitem msk (- 1) of
                             Inl e \<Rightarrow> Inl e
                           | Inr l \<Rightarrow>
                               Inr (map (\<lambda>(m, x, ss). if x = ss then True else m)
                                      (zip msk (zip (butlast s) (source env))) @ [l]))
                     else Inr msk))"

text \<open>
  \<open>get_parents\<close> works on the list it is given: with an explicit state argument the
  caller's list, otherwise a fresh copy of the environment's state.
\<close>

definition get_parents ::
  "store \<Rightarrow> env \<Rightarrow> ref option \<Rightarrow> bool option \<Rightarrow> action option
     \<Rightarrow> (error + ref list \<times> action list) \<times> store" where
  "get_parents st env state_arg done_arg action_arg =
     (let (r, st) = (case state_arg of None \<Rightarrow> new_list st (st ! state env)
                                     | Some r \<Rightarrow> (r, st));
          dn = (case done_arg of None \<Rightarrow> done env | Some b \<Rightarrow> b)
      in if dn then (Inr ([r], [(eos env, 0)]), st)
         else case action_arg of
           None \<Rightarrow> (Inl TypeError, st)
         | Some action \<Rightarrow>
             (case exec_stmts
                     [\<lambda>s. py_moditem s (fst action) (\<lambda>x. pymod (x - snd action) two_pi),
                      \<lambda>s. py_moditem s (- 1) (\<lambda>x. x - 1)]
                     (st ! r) of
                (Some e, s) \<Rightarrow> (Inl e, st[r := s])
              | (None, s) \<Rightarrow> (Inr ([r], [action]), st[r := s])))"

definition step ::
  "store \<Rightarrow> env \<Rightarrow> action \<Rightarrow> (error + ref \<times> action \<times> bool) \<times> store \<times> env" where
  "step st env action =
     (if done env then (Inr (state env, action, False), st, env)
      else if n_actions env = length_traj env then
        (let env = env\<lparr>done := True\<rparr>;
             env = env\<lparr>n_actions := n_actions env + 1\<rparr>
         in (Inr (state env, (eos env, 0), True), st, env))
      else if fst action \<noteq> eos env then
        (let env = env\<lparr>n_actions := n_actions env + 1\<rparr>
         in case exec_stmts
                   [\<lambda>s. py_moditem s (fst action) (\<lambda>x. x + snd action),
                    \<lambda>s. py_moditem s (fst action) (\<lambda>x. pymod x two_pi),
                    \<lambda>s. py_setitem s (- 1) (of_int (n_actions env))]
                   (st ! state env) of
              (Some e, s) \<Rightarrow> (Inl e, st[state env := s], env)
            | (None, s) \<Rightarrow> (Inr (state env, action, True), st[state env := s], env))
      else (Inr (state env, action, False), st, env))"


text \<open>The environment of the examples: two dimensions, trajectories of length one.\<close>

definition torus21 :: "store \<times> env" where
  "torus21 = HybridTorus [] 2 1 True"

section \<open>Tensors and distributions\<close>

text \<open>
  \<open>sample_actions\<close> and \<open>get_logprobs\<close> work on batches: a two-dimensional tensor is a
  list of rows. The functions of the tensor library that they call are parameters: the
  log-softmax of a row and the log-densities of the distribution objects. Whatever the
  library computes, it computes the same value from the same arguments. Shape errors of
  the library are not modelled; the properties below assume well-shaped batches.
\<close>

record torch =
  logsoftmax :: "real list \<Rightarrow> real list"
  vonmises_log_prob :: "real \<Rightarrow> real \<Rightarrow> real \<Rightarrow> real"
  uniform_log_prob :: "real \<Rightarrow> real \<Rightarrow> real \<Rightarrow> real"
  bernoulli_log_prob :: "real \<Rightarrow> real \<Rightarrow> real"

datatype distribution = VonMises "real list" "real list" | Uniform "real list" "real list"

fun log_prob :: "torch \<Rightarrow> distribution \<Rightarrow> real list \<Rightarrow> real list" where
  "log_prob T (VonMises loc concentration) value =
     map (\<lambda>(l, c, x). vonmises_log_prob T l c x) (zip loc (zip concentration value))"
| "log_prob T (Uniform low high) value =
     map (\<lambda>(l, h, x). uniform_log_prob T l h x) (zip low (zip high value))"

text \<open>Indexing by a tensor element: a negative index counts from the end.\<close>

definition tindex :: "'a list \<Rightarrow> int \<Rightarrow> 'a" where
  "tindex xs i = xs ! (if i < 0 then nat (int (length xs) + i) else nat i)"

text \<open>
  \<open>x[idx]\<close> and \<open>x[idx] = vs\<close> for a tensor of indices; \<open>x[rows, cols]\<close> for two
  tensors of indices; \<open>xs[bs]\<close> for a tensor of booleans.
\<close>

definition gather :: "'a list \<Rightarrow> nat list \<Rightarrow> 'a list" where
  "gather xs idx = map (\<lambda>i. xs ! i) idx"

definition scatter :: "'a list \<Rightarrow> nat list \<Rightarrow> 'a list \<Rightarrow> 'a list" where
  "scatter xs idx vs = fold (\<lambda>(i, v) acc. acc[i := v]) (zip idx vs) xs"

definition gather2 :: "'a list list \<Rightarrow> nat list \<Rightarrow> int list \<Rightarrow> 'a list" where
  "gather2 x rows cols = map (\<lambda>(i, j). tindex (x ! i) j) (zip rows cols)"

definition select :: "'a list \<Rightarrow> bool list \<Rightarrow> 'a list" where
  "select xs bs = map fst (filter snd (zip xs bs))"

text \<open>
  \<open>x[:, k::stride]\<close> is a view: \<open>slice_cols\<close> reads it, and \<open>set_slice_cols\<close> is what
  an in-place write to the view leaves in \<open>x\<close>. \<open>masked_fill\<close> is \<open>x[m] = v\<close>.
\<close>

definition cols_from :: "nat \<Rightarrow> nat \<Rightarrow> nat \<Rightarrow> nat list" where
  "cols_from k stride n = filter (\<lambda>j. k \<le> j \<and> (j - k) mod stride = 0) [0..<n]"

definition slice_cols :: "nat \<Rightarrow> nat \<Rightarrow> 'a list list \<Rightarrow> 'a list list" where
  "slice_cols k stride x = map (\<lambda>row. gather row (cols_from k stride (length row))) x"

definition set_slice_cols :: "nat \<Rightarrow> nat \<Rightarrow> 'a list list \<Rightarrow> 'a list list \<Rightarrow> 'a list list" where
  "set_slice_cols k stride x v =
     map (\<lambda>(row, vrow). scatter row (cols_from k stride (length row)) vrow) (zip x v)"

definition masked_fill :: "real list list \<Rightarrow> bool list list \<Rightarrow> real \<Rightarrow> real list list" where
  "masked_fill x m v = map (\<lambda>(row, mrow). map (\<lambda>(a, b). if b then v else a) (zip row mrow)) (zip x m)"

text \<open>
  Two attributes the constructor fixes: the epsilon added to the concentration, and the
  length \<open>n_dim * n_params_per_dim + 1\<close> of a policy output.
\<close>

definition vonmises_concentration_epsilon :: real where
  "vonmises_concentration_epsilon = 1 / 1000"

definition policy_output_dim :: "env \<Rightarrow> nat" where
  "policy_output_dim env = n_dim env * n_params_per_dim env + 1"

text \<open>
  \<open>sample_actions\<close>. What the random number generator draws is an argument: the
  dimension sampled for each state and the angle sampled for each state whose dimension
  is not \<open>eos\<close>. With the policy method the logits are a view of the policy outputs,
  so dividing them by the temperature and masking them writes into the policy outputs;
  the tensor as the call leaves it is returned with the result. Any other method than
  \<open>uniform\<close> and \<open>policy\<close> leaves \<open>logits_dims\<close> unbound.
\<close>

definition sample_actions ::
  "torch \<Rightarrow> env \<Rightarrow> real list list \<Rightarrow> string \<Rightarrow> bool list list option \<Rightarrow> real \<Rightarrow> real
     \<Rightarrow> nat list \<Rightarrow> real list
     \<Rightarrow> (error + action list \<times> real list) \<times> real list list" where
  "sample_actions T env policy_outputs sampling_method mask_invalid_actions temperature_logits
       loginf sampled_dimensions sampled_angles =
     (let n_states = length policy_outputs;
          ns_range = [0..<n_states]
      in if sampling_method \<noteq> ''uniform'' \<and> sampling_method \<noteq> ''policy''
         then (Inl (NameError ''logits_dims''), policy_outputs)
         else
           let logits_dims =
                 (if sampling_method = ''uniform''
                  then replicate n_states (replicate (policy_output_dim env) 1)
                  else map (map (\<lambda>x. x / temperature_logits))
                         (slice_cols 0 (n_params_per_dim env) policy_outputs));
               logits_dims =
                 (case mask_invalid_actions of
                    None \<Rightarrow> logits_dims
                  | Some m \<Rightarrow> masked_fill logits_dims m (- loginf));
               policy_outputs =
                 (if sampling_method = ''policy''
                  then set_slice_cols 0 (n_params_per_dim env) policy_outputs logits_dims
                  else policy_outputs);
               dimensions = map int sampled_dimensions;
               logprobs_dim = gather2 (map (logsoftmax T) logits_dims) ns_range dimensions;
               ns_range_noeos = select ns_range (map (\<lambda>d. d \<noteq> eos env) dimensions);
               dimensions_noeos = select dimensions (map (\<lambda>d. d \<noteq> eos env) dimensions);
               angles = replicate n_states 0;
               logprobs_angles = replicate n_states 0;
               (angles, logprobs_angles) =
                 (if length dimensions_noeos > 0 then
                    let distr_angles =
                          (if sampling_method = ''uniform''
                           then Uniform (replicate (length ns_range_noeos) 0)
                                  (map (\<lambda>x. 2 * pi * x) (replicate (length ns_range_noeos) 1))
                           else
                             let locations =
                                   gather2 (slice_cols 1 (n_params_per_dim env) policy_outputs)
                                     ns_range_noeos dimensions_noeos;
                                 concentrations =
                                   gather2 (slice_cols 2 (n_params_per_dim env) policy_outputs)
                                     ns_range_noeos dimensions_noeos
                             in VonMises locations
                                  (map (\<lambda>c. exp c + vonmises_concentration_epsilon)
                                     concentrations));
                        angles = scatter angles ns_range_noeos sampled_angles;
                        logprobs_angles =
                          scatter logprobs_angles ns_range_noeos
                            (log_prob T distr_angles (gather angles ns_range_noeos))
                    in (angles, logprobs_angles)
                  else (angles, logprobs_angles));
               logprobs = map (\<lambda>(a, b). a + b) (zip logprobs_dim logprobs_angles);
               actions = zip dimensions angles
           in (Inr (actions, logprobs), policy_outputs))"

text \<open>
  \<open>get_logprobs\<close>, which masks the same view in place and so also returns the policy
  outputs as it leaves them.
\<close>

definition get_logprobs ::
  "torch \<Rightarrow> env \<Rightarrow> real list list \<Rightarrow> bool \<Rightarrow> action list \<Rightarrow> real list list
     \<Rightarrow> bool list list option \<Rightarrow> real \<Rightarrow> real list \<times> real list list" where
  "get_logprobs T env policy_outputs is_forward actions states_target mask_invalid_actions
       loginf =
     (let dimensions = map fst actions;
          angles = map snd actions;
          n_states = length policy_outputs;
          ns_range = [0..<n_states];
          logits_dims = slice_cols 0 (n_params_per_dim env) policy_outputs;
          logits_dims =
            (case mask_invalid_actions of
               None \<Rightarrow> logits_dims
             | Some m \<Rightarrow> masked_fill logits_dims m (- loginf));
          policy_outputs = set_slice_cols 0 (n_params_per_dim env) policy_outputs logits_dims;
          logprobs_dim = gather2 (map (logsoftmax T) logits_dims) ns_range dimensions;
          source_aux = source env @ [- 1];
          nsource_ne_nsteps =
            map (\<lambda>s. real (length (filter (\<lambda>(x, ss). x \<noteq> ss) (zip (butlast s) (source env))))
                       \<noteq> last s)
              states_target;
          angledim_ne_source =
            map (\<lambda>(x, ss). x \<noteq> ss)
              (zip (gather2 states_target ns_range dimensions)
                   (map (tindex source_aux) dimensions));
          noeos = map (\<lambda>d. d \<noteq> eos env) dimensions;
          nofix_indices =
            map (\<lambda>(a, b, c). ((a \<or> b) \<or> is_forward) \<and> c)
              (zip nsource_ne_nsteps (zip angledim_ne_source noeos));
          logprobs_angles = replicate n_states 0;
          logprobs_nosource = replicate n_states 0;
          (logprobs_angles, logprobs_nosource) =
            (if \<exists>b\<in>set nofix_indices. b then
               let ns_range_nofix = select ns_range nofix_indices;
                   dimensions_nofix = select dimensions nofix_indices;
                   locations =
                     gather2 (slice_cols 1 (n_params_per_dim env) policy_outputs)
                       ns_range_nofix dimensions_nofix;
                   concentrations =
                     gather2 (slice_cols 2 (n_params_per_dim env) policy_outputs)
                       ns_range_nofix dimensions_nofix;
                   distr_angles =
                     VonMises locations
                       (map (\<lambda>c. exp c + vonmises_concentration_epsilon) concentrations);
                   logprobs_angles =
                     scatter logprobs_angles ns_range_nofix
                       (log_prob T distr_angles (gather angles ns_range_nofix));
                   logprobs_nosource =
                     (if n_params_per_dim env = 4 \<and> \<not> is_forward then
                        let logits_nosource =
                              gather2 (slice_cols 3 (n_params_per_dim env) policy_outputs)
                                ns_range_nofix dimensions_nofix
                        in scatter logprobs_nosource ns_range_nofix
                             (map (\<lambda>(l, b). bernoulli_log_prob T l (if b then 1 else 0))
                                (zip logits_nosource
                                   (gather angledim_ne_source ns_range_nofix)))
                      else logprobs_nosource)
               in (logprobs_angles, logprobs_nosource)
             else (logprobs_angles, logprobs_nosource));
          logprobs =
            map (\<lambda>(a, b, c). a + b + c)
              (zip logprobs_dim (zip logprobs_angles logprobs_nosource))
      in (logprobs, policy_outputs))"

text \<open>
  An instance of the library for the examples: the functions over the reals that the
  library approximates.
\<close>

definition bessel_i0 :: "real \<Rightarrow> real" where
  "bessel_i0 c = (\<Sum>k. ((c / 2) ^ k / fact k)\<^sup>2)"

definition real_torch :: torch where
  "real_torch =
     \<lparr>logsoftmax = (\<lambda>xs. map (\<lambda>x. x - ln (sum_list (map exp xs))) xs),
      vonmises_log_prob = (\<lambda>loc c x. c * cos (x - loc) - ln (2 * pi) - ln (bessel_i0 c)),
      uniform_log_prob = (\<lambda>low high x. - ln (high - low)),
      bernoulli_log_prob = (\<lambda>l v. v * l - ln (1 + exp l))\<rparr>"

section \<open>Invariant\<close>


section \<open>Statements of the specification, for comparison\<close>

text \<open>
  The forward mask as the specification words it: the terminal action is the only valid
  one once the counter has reached the trajectory length or the trajectory is done;
  otherwise every other action is valid and the terminal one is not. (\<open>True\<close> marks
  an invalid action.)
\<close>

definition forward_mask_claimed :: "env \<Rightarrow> real list \<Rightarrow> bool \<Rightarrow> bool list" where
  "forward_mask_claimed env s dn =
     (if last s \<ge> of_int (length_traj env) \<or> dn
      then replicate (n_dim env) True @ [False]
      else replicate (n_dim env) False @ [True])"

section \<open>Properties of gflownet/utils/common.py\<close>

lemma handle_logdir_NameError: "handle_logdir = Inl (NameError ''config'')"
  by (simp add: handle_logdir_def module_globals_def)

text \<open>
  Claim C8. \<open>set_float_precision\<close> returns \<open>torch.float16\<close>, \<open>torch.float32\<close> and
  \<open>torch.float64\<close> for the precisions 16, 32 and 64, and raises a \<open>ValueError\<close> for
  every other precision; a call of any operation of the utility module raises a
  \<open>ValueError\<close> only if it is such a call of \<open>set_float_precision\<close>.
\<close>

theorem set_float_precision_only_validation_error:
  "set_float_precision 16 = Inr Float16
   \<and> set_float_precision 32 = Inr Float32
   \<and> set_float_precision 64 = Inr Float64
   \<and> (precision \<notin> {16, 32, 64} \<longrightarrow> is_ValueError (set_float_precision precision))
   \<and> (is_ValueError (common c) \<longleftrightarrow> (\<exists>p. c = SetFloatPrecision p \<and> p \<notin> {16, 32, 64}))"
proof -
  have other: "is_ValueError (common c) \<longleftrightarrow> (\<exists>p. c = SetFloatPrecision p \<and> p \<notin> {16, 32, 64})"
    by (cases c)
       (simp_all add: common_def is_ValueError_def set_float_precision_def
          handle_logdir_NameError)
  show ?thesis
    using other by (simp add: set_float_precision_def is_ValueError_def)
qed

theorem set_float_precision_only_validation_error_witness:
  "(8::int) \<notin> {16, 32, 64}
   \<and> is_ValueError (set_float_precision 8)
   \<and> is_ValueError (common (SetFloatPrecision 8 :: (real, int) common_call))
   \<and> \<not> is_ValueError (common (HandleLogdir :: (real, int) common_call))"
  using set_float_precision_only_validation_error
    [of 8 "SetFloatPrecision 8 :: (real, int) common_call"]
    set_float_precision_only_validation_error
    [of 8 "HandleLogdir :: (real, int) common_call"]
  by simp

section \<open>Python lists and the modulus\<close>



lemma pymod_id: "0 \<le> x \<Longrightarrow> x < m \<Longrightarrow> pymod x m = x"
proof -
  assume "0 \<le> x" "x < m"
  then have "\<lfloor>x / m\<rfloor> = 0" by (simp add: floor_eq_iff)
  then show ?thesis by (simp add: pymod_def)
qed

lemma py_getitem_nat: "i < length xs \<Longrightarrow> py_getitem xs (int i) = Inr (xs ! i)"
  by (simp add: py_getitem_def py_index_def)

lemma py_getitem_last: "xs \<noteq> [] \<Longrightarrow> py_getitem xs (- 1) = Inr (last xs)"
  by (cases xs rule: rev_cases) (simp_all add: py_getitem_def py_index_def)

lemma py_getitem_empty: "py_getitem [] i = Inl IndexError"
  by (simp add: py_getitem_def py_index_def)

lemma py_setitem_nat: "i < length xs \<Longrightarrow> py_setitem xs (int i) v = Inr (xs[i := v])"
  by (simp add: py_setitem_def py_index_def)

lemma py_setitem_last: "xs \<noteq> [] \<Longrightarrow> py_setitem xs (- 1) v = Inr (xs[length xs - 1 := v])"
  by (cases xs rule: rev_cases) (simp_all add: py_setitem_def py_index_def)

lemma py_moditem_nat: "i < length xs \<Longrightarrow> py_moditem xs (int i) f = Inr (xs[i := f (xs ! i)])"
  by (simp add: py_moditem_def py_getitem_nat py_setitem_nat)

lemma py_moditem_last: "xs \<noteq> [] \<Longrightarrow> py_moditem xs (- 1) f = Inr (xs[length xs - 1 := f (last xs)])"
  by (simp add: py_moditem_def py_getitem_last py_setitem_last)

lemma py_setitem_replicate_last:
  "py_setitem (replicate (Suc n) x) (- 1) y = Inr (replicate n x @ [y])"
proof -
  have "replicate (Suc n) x = replicate n x @ [x]" by (simp add: replicate_append_same)
  then have "py_setitem (replicate (Suc n) x) (- 1) y = py_setitem (replicate n x @ [x]) (- 1) y"
    by (simp only:)
  also have "\<dots> = Inr (replicate n x @ [y])"
    by (simp add: py_setitem_def py_index_def list_update_append)
  finally show ?thesis .
qed

lemma pymod_half_pi: "pymod (pi / 2) two_pi = pi / 2"
  by (rule pymod_id) (simp_all add: two_pi_def)

lemma pymod_zero: "pymod 0 m = 0"
  by (simp add: pymod_def)




section \<open>The example environment\<close>

lemma torus21_eq:
  "torus21 =
     ([[0, 0, 0]],
      \<lparr>n_dim = 2, eos = 2, length_traj = 1, n_params_per_dim = 4, env_id = None,
         angles = [0, 0], source = [0, 0],
         action_space = [(0, None), (1, None), (2, Some 0)], state = 0,
         n_actions = 0, done = False\<rparr>)"
  by (simp add: torus21_def HybridTorus_def reset_def new_list_def get_actions_space_def
      numeral_2_eq_2 upt_rec)

section \<open>step\<close>

text \<open>
  Claim C1. The case analysis of \<open>step\<close>. If the trajectory is done, the call returns
  the state, the action it was given and \<open>False\<close>, and changes nothing. If it is not
  done and \<open>n_actions\<close> equals \<open>length_traj\<close>, the call marks the trajectory done,
  increments \<open>n_actions\<close> and returns the terminal action \<open>(eos, 0.0)\<close> with \<open>True\<close>,
  whatever action it was given. If it is not done, \<open>n_actions\<close> is below
  \<open>length_traj\<close> and the action names a dimension \<open>0 \<le> d < n_dim\<close> of an
  environment whose state has its \<open>n_dim + 1\<close> components, the angle of that
  dimension becomes the old angle plus the increment modulo \<open>2 * pi\<close>, \<open>n_actions\<close> is
  incremented and written to the last component, and the call returns \<open>True\<close>. If it
  is not done, \<open>n_actions\<close> differs from \<open>length_traj\<close> and the action is the
  terminal one, the call returns \<open>False\<close> and changes nothing.
\<close>

theorem step_case_analysis:
  "(done env \<longrightarrow> step st env a = (Inr (state env, a, False), st, env))
   \<and> (\<not> done env \<and> n_actions env = length_traj env \<longrightarrow>
        step st env a =
          (Inr (state env, (eos env, 0), True), st,
           env\<lparr>done := True, n_actions := n_actions env + 1\<rparr>))
   \<and> (\<not> done env \<and> n_actions env < length_traj env
        \<and> eos env = int (n_dim env) \<and> state env < length st
        \<and> length (st ! state env) = n_dim env + 1
        \<and> 0 \<le> fst a \<and> fst a < eos env \<longrightarrow>
        step st env a =
          (Inr (state env, a, True),
           st[state env :=
                (st ! state env)
                  [nat (fst a) := pymod (st ! state env ! nat (fst a) + snd a) two_pi,
                   n_dim env := of_int (n_actions env + 1)]],
           env\<lparr>n_actions := n_actions env + 1\<rparr>))
   \<and> (\<not> done env \<and> n_actions env \<noteq> length_traj env \<and> fst a = eos env \<longrightarrow>
        step st env a = (Inr (state env, a, False), st, env))"
proof -
  have c1: "done env \<Longrightarrow> step st env a = (Inr (state env, a, False), st, env)"
    by (simp add: step_def)
  have c2: "\<not> done env \<Longrightarrow> n_actions env = length_traj env \<Longrightarrow>
        step st env a =
          (Inr (state env, (eos env, 0), True), st,
           env\<lparr>done := True, n_actions := n_actions env + 1\<rparr>)"
    by (simp add: step_def)
  have c4: "\<not> done env \<Longrightarrow> n_actions env \<noteq> length_traj env \<Longrightarrow> fst a = eos env \<Longrightarrow>
        step st env a = (Inr (state env, a, False), st, env)"
    by (simp add: step_def)
  have c3: "step st env a =
          (Inr (state env, a, True),
           st[state env :=
                (st ! state env)
                  [nat (fst a) := pymod (st ! state env ! nat (fst a) + snd a) two_pi,
                   n_dim env := of_int (n_actions env + 1)]],
           env\<lparr>n_actions := n_actions env + 1\<rparr>)"
    if h: "\<not> done env" "n_actions env < length_traj env" "eos env = int (n_dim env)"
      "length (st ! state env) = n_dim env + 1" "0 \<le> fst a" "fst a < eos env"
  proof -
    define s where "s = st ! state env"
    define d where "d = nat (fst a)"
    have d: "fst a = int d" "d < length s" using h by (simp_all add: d_def s_def)
    have ne: "s \<noteq> []" using d by auto
    have len: "length s - 1 = n_dim env" using h by (simp add: s_def)
    show ?thesis
      using h d ne len
      by (simp add: step_def py_moditem_nat py_setitem_last s_def[symmetric] d_def[symmetric])
  qed
  show ?thesis using c1 c2 c3 c4 by blast
qed

theorem step_case_analysis_witness:
  "step (fst torus21) (snd torus21) (0, pi / 2)
     = (Inr (0, (0, pi / 2), True), [[pi / 2, 0, 1]], (snd torus21)\<lparr>n_actions := 1\<rparr>)
   \<and> step (fst torus21) (snd torus21) (2, 0)
     = (Inr (0, (2, 0), False), fst torus21, snd torus21)
   \<and> step [[pi / 2, 0, 1]] ((snd torus21)\<lparr>n_actions := 1\<rparr>) (0, pi / 2)
     = (Inr (0, (2, 0), True), [[pi / 2, 0, 1]],
        (snd torus21)\<lparr>done := True, n_actions := 2\<rparr>)
   \<and> step [[pi / 2, 0, 1]] ((snd torus21)\<lparr>done := True, n_actions := 2\<rparr>) (0, pi / 2)
     = (Inr (0, (0, pi / 2), False), [[pi / 2, 0, 1]],
        (snd torus21)\<lparr>done := True, n_actions := 2\<rparr>)"
  using step_case_analysis[of "snd torus21" "fst torus21" "(0, pi / 2)"]
    step_case_analysis[of "snd torus21" "fst torus21" "(2, 0)"]
    step_case_analysis[of "(snd torus21)\<lparr>n_actions := 1\<rparr>" "[[pi / 2, 0, 1]]" "(0, pi / 2)"]
    step_case_analysis[of "(snd torus21)\<lparr>done := True, n_actions := 2\<rparr>"
      "[[pi / 2, 0, 1]]" "(0, pi / 2)"]
  by (simp add: torus21_eq pymod_half_pi)

text \<open>
  Claim C10. On the forced-termination branch (not done, \<open>n_actions = length_traj\<close>)
  the store, and with it the state list, is unchanged, and of the environment only
  \<open>done\<close> and \<open>n_actions\<close> change, the latter to \<open>length_traj + 1\<close>. So a state
  whose last component was \<open>length_traj\<close> still has it, and it differs from
  \<open>n_actions\<close> afterwards.
\<close>

theorem step_forced_termination_frame:
  "\<not> done env \<and> n_actions env = length_traj env \<longrightarrow>
     (case step st env a of
        (res, st', env') \<Rightarrow>
          res = Inr (state env, (eos env, 0), True)
          \<and> st' = st
          \<and> env' = env\<lparr>done := True, n_actions := length_traj env + 1\<rparr>
          \<and> (py_getitem (st ! state env) (- 1) = Inr (of_int (length_traj env)) \<longrightarrow>
               py_getitem (st' ! state env') (- 1) = Inr (of_int (length_traj env))
               \<and> py_getitem (st' ! state env') (- 1) \<noteq> Inr (of_int (n_actions env'))))"
  by (simp add: step_def)

theorem step_forced_termination_frame_witness:
  "\<not> done ((snd torus21)\<lparr>n_actions := 1\<rparr>)
   \<and> n_actions ((snd torus21)\<lparr>n_actions := 1\<rparr>) = length_traj ((snd torus21)\<lparr>n_actions := 1\<rparr>)
   \<and> py_getitem [pi / 2, 0, 1] (- 1) = Inr (of_int (length_traj (snd torus21)))
   \<and> step [[pi / 2, 0, 1]] ((snd torus21)\<lparr>n_actions := 1\<rparr>) (0, pi / 2)
     = (Inr (0, (2, 0), True), [[pi / 2, 0, 1]],
        (snd torus21)\<lparr>done := True, n_actions := 2\<rparr>)"
  using step_forced_termination_frame
    [of "(snd torus21)\<lparr>n_actions := 1\<rparr>" "[[pi / 2, 0, 1]]" "(0, pi / 2)"]
  by (auto simp add: torus21_eq py_getitem_def py_index_def split: prod.splits)

section \<open>get_mask_invalid_actions_forward\<close>

text \<open>
  Claim C2, as stated, fails when the trajectory is done: the code then marks every
  action invalid, the terminal one too. At the state \<open>[0, 0, 1]\<close> of the example
  environment with \<open>done = True\<close> the mask is not the one the claim describes.
\<close>

theorem forward_mask_done_counterexample:
  "get_mask_invalid_actions_forward (fst torus21) (snd torus21) (Some [0, 0, 1]) (Some True)
     \<noteq> Inr (forward_mask_claimed (snd torus21) [0, 0, 1] True)"
  by (simp add: torus21_eq get_mask_invalid_actions_forward_def forward_mask_claimed_def
      numeral_2_eq_2)

text \<open>
  Claim C2, amended. For an environment whose action space has its \<open>n_dim + 1\<close>
  entries and a non-empty state: when the trajectory is done every action is marked
  invalid; when it is not done and the counter has reached \<open>length_traj\<close> the terminal
  action is the only valid one; otherwise every non-terminal action is valid and the
  terminal one is invalid. In particular, with \<open>n_dim = 2\<close> and \<open>length_traj = 1\<close> the
  mask at \<open>[0, 0, 1]\<close> with \<open>done = False\<close> is \<open>[True, True, False]\<close> (the witness).
\<close>

theorem forward_mask_amended:
  "length (action_space env) = n_dim env + 1 \<and> s \<noteq> [] \<longrightarrow>
     get_mask_invalid_actions_forward st env (Some s) (Some dn) =
       Inr (if dn then replicate (n_dim env + 1) True
            else if last s \<ge> of_int (length_traj env)
                 then replicate (n_dim env) True @ [False]
                 else replicate (n_dim env) False @ [True])"
  by (simp add: get_mask_invalid_actions_forward_def py_getitem_last
      py_setitem_replicate_last del: replicate_Suc)

theorem forward_mask_amended_witness:
  "length (action_space (snd torus21)) = n_dim (snd torus21) + 1
   \<and> [0, 0, 1 :: real] \<noteq> []
   \<and> get_mask_invalid_actions_forward (fst torus21) (snd torus21) (Some [0, 0, 1]) (Some False)
       = Inr [True, True, False]
   \<and> get_mask_invalid_actions_forward (fst torus21) (snd torus21) (Some [0, 0, 0]) (Some False)
       = Inr [False, False, True]
   \<and> get_mask_invalid_actions_forward (fst torus21) (snd torus21) (Some [0, 0, 1]) (Some True)
       = Inr [True, True, True]"
  using forward_mask_amended[of "snd torus21" "[0, 0, 1]" "fst torus21" False]
    forward_mask_amended[of "snd torus21" "[0, 0, 0]" "fst torus21" False]
    forward_mask_amended[of "snd torus21" "[0, 0, 1]" "fst torus21" True]
  by (simp add: torus21_eq numeral_2_eq_2 numeral_3_eq_3)

section \<open>States reachable from reset\<close>








section \<open>get_mask_invalid_actions_backward\<close>

lemma count_noninit:
  assumes "length xs = n" "length ys = n"
  shows "length (map fst (filter (\<lambda>(x, ss). x \<noteq> ss) (zip xs ys))) = card {j. j < n \<and> xs ! j \<noteq> ys ! j}"
proof -
  have "length (filter (\<lambda>(x, ss). x \<noteq> ss) (zip xs ys))
        = card {i. i < length (zip xs ys) \<and> (\<lambda>(x, ss). x \<noteq> ss) (zip xs ys ! i)}"
    by (rule length_filter_conv_card)
  also have "{i. i < length (zip xs ys) \<and> (\<lambda>(x, ss). x \<noteq> ss) (zip xs ys ! i)}
        = {j. j < n \<and> xs ! j \<noteq> ys ! j}"
    using assms by auto
  finally show ?thesis by simp
qed

lemma backward_mask_shape:
  assumes "length (action_space env) = n_dim env + 1"
    and "length (source env) = n_dim env"
    and "length s = n_dim env + 1"
  shows "get_mask_invalid_actions_backward st env (Some s) (Some dn) =
     Inr (if real (card {j. j < n_dim env \<and> s ! j \<noteq> source env ! j}) = s ! n_dim env
          then map (\<lambda>i. s ! i = source env ! i \<or> dn) [0..<n_dim env] @ [\<not> dn]
          else replicate (n_dim env) dn @ [\<not> dn])"
proof -
  define n where "n = n_dim env"
  define xs where "xs = butlast s"
  define src where "src = source env"
  have lx: "length xs = n" "length src = n" using assms by (simp_all add: xs_def n_def src_def)
  have ne: "s \<noteq> []" using assms by auto
  have ls: "last s = s ! n" using assms ne by (simp add: last_conv_nth n_def)
  have xsn: "\<And>j. j < n \<Longrightarrow> xs ! j = s ! j"
    using assms by (simp add: xs_def nth_butlast n_def)
  have cnt: "length (map fst (filter (\<lambda>(x, ss). x \<noteq> ss) (zip xs src))) = card {j. j < n \<and> s ! j \<noteq> src ! j}"
  proof -
    have "{j. j < n \<and> xs ! j \<noteq> src ! j} = {j. j < n \<and> s ! j \<noteq> src ! j}"
      using xsn by auto
    then show ?thesis using count_noninit[OF lx] by simp
  qed
  define msk where "msk = replicate n dn @ [\<not> dn]"
  have m0: "(if dn then py_setitem (replicate (length (action_space env)) True) (- 1) False
               else py_setitem (replicate (length (action_space env)) False) (- 1) True) = Inr msk"
    using assms by (simp add: py_setitem_replicate_last msk_def n_def del: replicate_Suc)
  have ml: "py_getitem msk (- 1) = Inr (\<not> dn)" by (simp add: py_getitem_last msk_def)
  have zp: "zip msk (zip xs src) = zip (replicate n dn) (zip xs src)"
    using lx by (simp add: msk_def zip_append1)
  have mp: "map (\<lambda>(m, x, ss). if x = ss then True else m) (zip msk (zip xs src))
            = map (\<lambda>i. s ! i = src ! i \<or> dn) [0..<n]"
    using lx xsn by (auto simp add: zp intro!: nth_equalityI)
  show ?thesis
    unfolding get_mask_invalid_actions_backward_def
    using m0 ml mp cnt ls ne
    by (simp add: py_getitem_last Let_def xs_def[symmetric] src_def[symmetric] n_def[symmetric] msk_def[symmetric])
qed

text \<open>
  Claim C7. For an environment whose action space has its \<open>n_dim + 1\<close> entries and
  whose source has \<open>n_dim\<close> angles, and a state of \<open>n_dim + 1\<close> components, the
  backward mask has \<open>n_dim + 1\<close> entries; the terminal action is valid exactly when
  \<open>done\<close> is true; and when \<open>done\<close> is false a non-terminal action is invalid exactly
  when the number of dimensions whose angle differs from the source angle equals the
  step counter and the angle of its own dimension equals the source angle.
  (\<open>True\<close> marks an invalid action.)
\<close>

theorem backward_mask_terminal_and_source:
  "length (action_space env) = n_dim env + 1 \<and> length (source env) = n_dim env
   \<and> length s = n_dim env + 1 \<longrightarrow>
   (\<exists>m. get_mask_invalid_actions_backward st env (Some s) (Some dn) = Inr m
      \<and> length m = n_dim env + 1
      \<and> (\<not> m ! n_dim env \<longleftrightarrow> dn)
      \<and> (\<not> dn \<longrightarrow>
           (\<forall>i<n_dim env.
              m ! i \<longleftrightarrow>
                real (card {j. j < n_dim env \<and> s ! j \<noteq> source env ! j}) = s ! n_dim env
                \<and> s ! i = source env ! i)))"
proof (intro impI, elim conjE)
  assume h: "length (action_space env) = n_dim env + 1" "length (source env) = n_dim env"
    "length s = n_dim env + 1"
  show "\<exists>m. get_mask_invalid_actions_backward st env (Some s) (Some dn) = Inr m
      \<and> length m = n_dim env + 1
      \<and> (\<not> m ! n_dim env \<longleftrightarrow> dn)
      \<and> (\<not> dn \<longrightarrow>
           (\<forall>i<n_dim env.
              m ! i \<longleftrightarrow>
                real (card {j. j < n_dim env \<and> s ! j \<noteq> source env ! j}) = s ! n_dim env
                \<and> s ! i = source env ! i))"
    unfolding backward_mask_shape[OF h]
    by (auto simp add: nth_append)
qed

theorem backward_mask_terminal_and_source_witness:
  "length (action_space (snd torus21)) = n_dim (snd torus21) + 1
   \<and> length (source (snd torus21)) = n_dim (snd torus21)
   \<and> length [0, 1, 1 :: real] = n_dim (snd torus21) + 1
   \<and> get_mask_invalid_actions_backward (fst torus21) (snd torus21) (Some [0, 1, 1]) (Some False)
       = Inr [True, False, True]
   \<and> get_mask_invalid_actions_backward (fst torus21) (snd torus21) (Some [0, 0, 1]) (Some False)
       = Inr [False, False, True]
   \<and> get_mask_invalid_actions_backward (fst torus21) (snd torus21) (Some [0, 1, 1]) (Some True)
       = Inr [True, True, False]"
  using backward_mask_terminal_and_source[of "snd torus21" "[0, 1, 1]" "fst torus21" False]
    backward_mask_terminal_and_source[of "snd torus21" "[0, 0, 1]" "fst torus21" False]
    backward_mask_terminal_and_source[of "snd torus21" "[0, 1, 1]" "fst torus21" True]
  by (simp add: torus21_eq get_mask_invalid_actions_backward_def py_setitem_def
      py_getitem_def py_index_def)

section \<open>get_parents\<close>

lemma get_parents_not_done:
  assumes "length (st ! r) = n_dim env + 1" "0 \<le> d" "d \<le> int (n_dim env)"
  shows "get_parents st env (Some r) (Some False) (Some (d, a)) =
     (Inr ([r], [(d, a)]),
      st[r := (let s1 = (st ! r)[nat d := pymod (st ! r ! nat d - a) two_pi]
               in s1[n_dim env := s1 ! n_dim env - 1])])"
proof -
  define s where "s = st ! r"
  define k where "k = nat d"
  have k: "d = int k" "k < length s" using assms by (simp_all add: k_def s_def)
  define s1 where "s1 = s[k := pymod (s ! k - a) two_pi]"
  have l1: "length s1 = n_dim env + 1" using assms by (simp add: s1_def s_def)
  then have s1: "s1 \<noteq> []" "length s1 - 1 = n_dim env" by auto
  then have s1l: "last s1 = s1 ! n_dim env" by (simp add: last_conv_nth)
  show ?thesis
    using k s1 s1l
    by (simp add: get_parents_def py_moditem_nat py_moditem_last
        s_def[symmetric] k_def[symmetric] s1_def[symmetric] Let_def)
qed

text \<open>
  Claim C4. Given a state list of \<open>n_dim + 1\<close> components and an action whose
  dimension index is in \<open>0 .. n_dim\<close>, \<open>get_parents\<close> returns exactly one parent and one
  action. If \<open>done\<close> is true the parent is the state itself, unchanged, with the
  terminal action \<open>(eos, 0.0)\<close>. Otherwise the parent is the state in which the
  increment was subtracted modulo \<open>2 * pi\<close> from the component the action indexes and
  then the last component, the step counter, was decremented; it comes with the action
  supplied. For a dimension below \<open>n_dim\<close> the two updates touch different components,
  so the counter of the parent is the old counter minus one.
\<close>

theorem get_parents_single_parent:
  "length (st ! r) = n_dim env + 1 \<and> 0 \<le> d \<and> d \<le> int (n_dim env) \<longrightarrow>
     get_parents st env (Some r) (Some True) (Some (d, a)) = (Inr ([r], [(eos env, 0)]), st)
     \<and> get_parents st env (Some r) (Some False) (Some (d, a)) =
         (Inr ([r], [(d, a)]),
          st[r := (let s1 = (st ! r)[nat d := pymod (st ! r ! nat d - a) two_pi]
                   in s1[n_dim env := s1 ! n_dim env - 1])])
     \<and> (d < int (n_dim env) \<longrightarrow>
          (let s1 = (st ! r)[nat d := pymod (st ! r ! nat d - a) two_pi]
           in s1[n_dim env := s1 ! n_dim env - 1])
          = (st ! r)[nat d := pymod (st ! r ! nat d - a) two_pi,
                     n_dim env := st ! r ! n_dim env - 1])"
proof (intro impI, elim conjE)
  assume h: "length (st ! r) = n_dim env + 1" "0 \<le> d" "d \<le> int (n_dim env)"
  have a: "get_parents st env (Some r) (Some True) (Some (d, a)) = (Inr ([r], [(eos env, 0)]), st)"
    by (simp add: get_parents_def)
  have c: "d < int (n_dim env) \<longrightarrow>
          (let s1 = (st ! r)[nat d := pymod (st ! r ! nat d - a) two_pi]
           in s1[n_dim env := s1 ! n_dim env - 1])
          = (st ! r)[nat d := pymod (st ! r ! nat d - a) two_pi,
                     n_dim env := st ! r ! n_dim env - 1]"
    using h by (simp add: Let_def)
  show "get_parents st env (Some r) (Some True) (Some (d, a)) = (Inr ([r], [(eos env, 0)]), st)
     \<and> get_parents st env (Some r) (Some False) (Some (d, a)) =
         (Inr ([r], [(d, a)]),
          st[r := (let s1 = (st ! r)[nat d := pymod (st ! r ! nat d - a) two_pi]
                   in s1[n_dim env := s1 ! n_dim env - 1])])
     \<and> (d < int (n_dim env) \<longrightarrow>
          (let s1 = (st ! r)[nat d := pymod (st ! r ! nat d - a) two_pi]
           in s1[n_dim env := s1 ! n_dim env - 1])
          = (st ! r)[nat d := pymod (st ! r ! nat d - a) two_pi,
                     n_dim env := st ! r ! n_dim env - 1])"
    using a c get_parents_not_done[OF h] by blast
qed

theorem get_parents_single_parent_witness:
  "length ([[pi / 2, 0, 1]] ! 0) = n_dim (snd torus21) + 1
   \<and> (0::int) \<le> 0 \<and> 0 \<le> int (n_dim (snd torus21)) \<and> 0 < int (n_dim (snd torus21))
   \<and> get_parents [[pi / 2, 0, 1]] (snd torus21) (Some 0) (Some True) (Some (0, pi / 2))
       = (Inr ([0], [(2, 0)]), [[pi / 2, 0, 1]])
   \<and> get_parents [[pi / 2, 0, 1]] (snd torus21) (Some 0) (Some False) (Some (0, pi / 2))
       = (Inr ([0], [(0, pi / 2)]), [[0, 0, 0]])"
  using get_parents_single_parent[of "[[pi / 2, 0, 1]]" 0 "snd torus21" 0 "pi / 2"]
  by (simp add: torus21_eq pymod_zero)

text \<open>
  Claim C9. Called with an explicit state argument, \<open>done = False\<close> and an action on a
  dimension \<open>0 \<le> d < n_dim\<close>, \<open>get_parents\<close> returns as the parent the reference it
  was given and creates no list; the list behind that reference now has the acted-on
  angle and the step counter overwritten, so it differs from what it held before the
  call. Every other list of the store is unchanged.
\<close>

theorem get_parents_mutates_argument:
  "r < length st \<and> length (st ! r) = n_dim env + 1 \<and> 0 \<le> d \<and> d < int (n_dim env) \<longrightarrow>
     (case get_parents st env (Some r) (Some False) (Some (d, a)) of
        (res, st') \<Rightarrow>
          res = Inr ([r], [(d, a)])
          \<and> length st' = length st
          \<and> st' ! r \<noteq> st ! r
          \<and> st' ! r ! nat d = pymod (st ! r ! nat d - a) two_pi
          \<and> st' ! r ! n_dim env = st ! r ! n_dim env - 1
          \<and> (\<forall>r'<length st. r' \<noteq> r \<longrightarrow> st' ! r' = st ! r'))"
proof (intro impI, elim conjE)
  assume h: "r < length st" "length (st ! r) = n_dim env + 1" "0 \<le> d" "d < int (n_dim env)"
  define p where "p = (st ! r)[nat d := pymod (st ! r ! nat d - a) two_pi,
                     n_dim env := st ! r ! n_dim env - 1]"
  have le: "d \<le> int (n_dim env)" using h by simp
  have gp: "get_parents st env (Some r) (Some False) (Some (d, a)) = (Inr ([r], [(d, a)]), st[r := p])"
    using get_parents_not_done[OF h(2) h(3) le, of a] h by (simp add: p_def Let_def)
  have pn: "p ! n_dim env = st ! r ! n_dim env - 1" using h by (simp add: p_def)
  have pd: "p ! nat d = pymod (st ! r ! nat d - a) two_pi" using h by (simp add: p_def)
  have ne: "p \<noteq> st ! r" using pn by auto
  show "case get_parents st env (Some r) (Some False) (Some (d, a)) of
        (res, st') \<Rightarrow>
          res = Inr ([r], [(d, a)])
          \<and> length st' = length st
          \<and> st' ! r \<noteq> st ! r
          \<and> st' ! r ! nat d = pymod (st ! r ! nat d - a) two_pi
          \<and> st' ! r ! n_dim env = st ! r ! n_dim env - 1
          \<and> (\<forall>r'<length st. r' \<noteq> r \<longrightarrow> st' ! r' = st ! r')"
    using h pn pd ne by (simp add: gp)
qed

theorem get_parents_mutates_argument_witness:
  "(0::nat) < length [[pi / 2, 0, 1 :: real]]
   \<and> length ([[pi / 2, 0, 1]] ! 0) = n_dim (snd torus21) + 1
   \<and> (0::int) \<le> 0 \<and> 0 < int (n_dim (snd torus21))
   \<and> snd (get_parents [[pi / 2, 0, 1]] (snd torus21) (Some 0) (Some False) (Some (0, pi / 2))) ! 0
       \<noteq> [pi / 2, 0, 1]
   \<and> fst (get_parents [[pi / 2, 0, 1]] (snd torus21) (Some 0) (Some False) (Some (0, pi / 2)))
       = Inr ([0], [(0, pi / 2)])"
  using get_parents_mutates_argument[of 0 "[[pi / 2, 0, 1]]" "snd torus21" 0 "pi / 2"]
  by (auto simp add: torus21_eq split: prod.splits)

section \<open>sample_actions and get_logprobs\<close>

lemma length_scatter: "length (scatter xs idx vs) = length xs"
proof -
  have "\<And>acc. length (fold (\<lambda>(i, v) acc. acc[i := v]) ps acc) = length acc" for ps :: "(nat \<times> 'a) list"
    by (induction ps) (auto split: prod.splits)
  then show ?thesis by (simp add: scatter_def)
qed

lemma scatter_gather_id: "scatter xs idx (gather xs idx) = xs"
proof -
  have "fold (\<lambda>(i, v) acc. acc[i := v]) (zip idx (map (\<lambda>i. xs ! i) idx)) xs = xs"
    by (induction idx) simp_all
  then show ?thesis by (simp add: scatter_def gather_def)
qed

lemma nth_fold_update_notin:
  "j \<notin> fst ` set ps \<Longrightarrow> fold (\<lambda>(i, v) acc. acc[i := v]) ps acc ! j = acc ! j"
  by (induction ps arbitrary: acc) (auto split: prod.splits)

lemma gather_scatter:
  "distinct idx \<Longrightarrow> \<forall>i\<in>set idx. i < length xs \<Longrightarrow> length vs = length idx \<Longrightarrow>
     gather (scatter xs idx vs) idx = vs"
proof (induction idx arbitrary: xs vs)
  case Nil
  then show ?case by (simp add: gather_def scatter_def)
next
  case (Cons i idx)
  then obtain v vs' where vs: "vs = v # vs'" by (cases vs) auto
  have notin: "i \<notin> fst ` set (zip idx vs')"
    using Cons.prems(1) by (auto dest: set_zip_leftD)
  have hd: "scatter (xs[i := v]) idx vs' ! i = v"
    using Cons.prems(2) nth_fold_update_notin[OF notin, of "xs[i := v]"]
    by (simp add: scatter_def)
  have tl: "gather (scatter (xs[i := v]) idx vs') idx = vs'"
    using Cons.prems vs by (intro Cons.IH) auto
  show ?case
    using hd tl by (simp add: vs gather_def scatter_def)
qed

lemma distinct_cols_from: "distinct (cols_from k stride n)"
  by (simp add: cols_from_def)

lemma cols_from_bound: "\<forall>i\<in>set (cols_from k stride n). i < n"
  by (simp add: cols_from_def)

lemma slice_set_slice:
  assumes "length v = length x"
    and "\<forall>i<length x. length (v ! i) = length (cols_from k stride (length (x ! i)))"
  shows "slice_cols k stride (set_slice_cols k stride x v) = v"
proof (rule nth_equalityI)
  show "length (slice_cols k stride (set_slice_cols k stride x v)) = length v"
    using assms(1) by (simp add: slice_cols_def set_slice_cols_def)
next
  fix i assume "i < length (slice_cols k stride (set_slice_cols k stride x v))"
  then have i: "i < length x" using assms(1) by (simp add: slice_cols_def set_slice_cols_def)
  have "slice_cols k stride (set_slice_cols k stride x v) ! i
        = gather (scatter (x ! i) (cols_from k stride (length (x ! i))) (v ! i))
            (cols_from k stride (length (x ! i)))"
    using i assms(1) by (simp add: slice_cols_def set_slice_cols_def length_scatter)
  also have "\<dots> = v ! i"
    using assms(2) i
    by (intro gather_scatter distinct_cols_from cols_from_bound) simp
  finally show "slice_cols k stride (set_slice_cols k stride x v) ! i = v ! i" .
qed

lemma set_slice_slice_id:
  "set_slice_cols k stride x (slice_cols k stride x) = x"
  by (rule nth_equalityI)
     (simp_all add: set_slice_cols_def slice_cols_def scatter_gather_id)

lemma masked_fill_idem: "masked_fill (masked_fill x m v) m v = masked_fill x m v"
proof -
  have row: "map (\<lambda>(a, b). if b then v else a) (zip (map (\<lambda>(a, b). if b then v else a) (zip r mr)) mr)
        = map (\<lambda>(a, b). if b then v else a) (zip r mr)" for r :: "real list" and mr
    by (induction r mr rule: list_induct2') auto
  show ?thesis
    unfolding masked_fill_def
    by (induction x m rule: list_induct2') (simp_all add: row)
qed

lemma length_masked_fill: "length m = length x \<Longrightarrow> length (masked_fill x m v) = length x"
  by (simp add: masked_fill_def)

lemma nth_masked_fill_length:
  "length m = length x \<Longrightarrow> i < length x \<Longrightarrow> length (m ! i) = length (x ! i) \<Longrightarrow>
     length (masked_fill x m v ! i) = length (x ! i)"
  by (simp add: masked_fill_def)

lemma select_nonempty:
  "length xs = length bs \<Longrightarrow> (0 < length (select xs bs)) = (\<exists>b\<in>set bs. b)"
  by (induction xs bs rule: list_induct2) (auto simp add: select_def)

lemma add_zeros:
  "length bs = n \<Longrightarrow>
     map (\<lambda>(a, b, c). a + b + c) (zip as (zip bs (replicate n (0::real))))
     = map (\<lambda>(a, b). a + b) (zip as bs)"
  by (rule nth_equalityI) simp_all

text \<open>
  After the masked logits have been written back, reading the view gives the masked
  logits, masking them again changes nothing, and writing them back changes nothing.
\<close>

lemma masked_logits_shape:
  fixes v :: real and po :: "real list list"
  assumes "case msk of None \<Rightarrow> True
           | Some m \<Rightarrow> length m = length po
               \<and> (\<forall>i<length po. length (m ! i) = length (cols_from 0 k (length (po ! i))))"
  defines "l2 \<equiv> (case msk of None \<Rightarrow> slice_cols 0 k po
                   | Some m \<Rightarrow> masked_fill (slice_cols 0 k po) m v)"
  shows "length l2 = length po"
    and "\<forall>i<length po. length (l2 ! i) = length (cols_from 0 k (length (po ! i)))"
proof -
  have s: "length (slice_cols 0 k po) = length po"
    "\<forall>i<length po. length (slice_cols 0 k po ! i) = length (cols_from 0 k (length (po ! i)))"
    by (simp_all add: slice_cols_def gather_def)
  show "length l2 = length po"
    using assms(1) s by (cases msk) (simp_all add: l2_def length_masked_fill)
  show "\<forall>i<length po. length (l2 ! i) = length (cols_from 0 k (length (po ! i)))"
    using assms(1) s by (cases msk) (simp_all add: l2_def nth_masked_fill_length)
qed

lemma masked_logits_fixpoint:
  fixes v :: real and po :: "real list list"
  assumes "case msk of None \<Rightarrow> True
           | Some m \<Rightarrow> length m = length po
               \<and> (\<forall>i<length po. length (m ! i) = length (cols_from 0 k (length (po ! i))))"
  defines "l2 \<equiv> (case msk of None \<Rightarrow> slice_cols 0 k po
                   | Some m \<Rightarrow> masked_fill (slice_cols 0 k po) m v)"
  defines "po1 \<equiv> set_slice_cols 0 k po l2"
  shows "slice_cols 0 k po1 = l2"
    and "(case msk of None \<Rightarrow> l2 | Some m \<Rightarrow> masked_fill l2 m v) = l2"
    and "set_slice_cols 0 k po1 l2 = po1"
    and "length po1 = length po"
proof -
  have sh: "length l2 = length po"
    "\<forall>i<length po. length (l2 ! i) = length (cols_from 0 k (length (po ! i)))"
    using masked_logits_shape[OF assms(1), of v] by (simp_all add: l2_def)
  show e2: "slice_cols 0 k po1 = l2"
    unfolding po1_def using sh by (intro slice_set_slice) simp_all
  show "(case msk of None \<Rightarrow> l2 | Some m \<Rightarrow> masked_fill l2 m v) = l2"
    by (cases msk) (simp_all add: l2_def masked_fill_idem)
  show "set_slice_cols 0 k po1 l2 = po1"
    using set_slice_slice_id[of 0 k po1] by (simp add: e2)
  show "length po1 = length po"
    using sh by (simp add: po1_def set_slice_cols_def)
qed

text \<open>
  Claim C5. Take a well-shaped batch: one sampled dimension and one target state per
  row of policy outputs, and a mask (if any) of the shape of the logits. Let
  \<open>sample_actions\<close> run with the policy method and temperature 1, whatever dimensions
  and angles it samples. Then \<open>get_logprobs\<close>, called with \<open>is_forward = True\<close> on the
  policy outputs as \<open>sample_actions\<close> left them, the actions it returned, the target
  states and the same mask, returns the log-probabilities that \<open>sample_actions\<close>
  returned, one per row, and leaves the policy outputs as they are.
\<close>

theorem sample_actions_logprobs_agree:
  "length sampled_dimensions = length policy_outputs
   \<and> length states_target = length policy_outputs
   \<and> (case mask_invalid_actions of
        None \<Rightarrow> True
      | Some m \<Rightarrow>
          length m = length policy_outputs
          \<and> (\<forall>i<length policy_outputs.
                length (m ! i)
                = length (cols_from 0 (n_params_per_dim env) (length (policy_outputs ! i)))))
   \<longrightarrow>
   (case sample_actions T env policy_outputs ''policy'' mask_invalid_actions 1 loginf
           sampled_dimensions sampled_angles of
      (res, policy_outputs1) \<Rightarrow>
        (\<exists>actions logprobs.
           res = Inr (actions, logprobs)
           \<and> length logprobs = length policy_outputs
           \<and> get_logprobs T env policy_outputs1 True actions states_target
                mask_invalid_actions loginf
               = (logprobs, policy_outputs1)))"
proof (intro impI, elim conjE)
  assume ld: "length sampled_dimensions = length policy_outputs"
    and ls: "length states_target = length policy_outputs"
    and sh: "case mask_invalid_actions of
        None \<Rightarrow> True
      | Some m \<Rightarrow>
          length m = length policy_outputs
          \<and> (\<forall>i<length policy_outputs.
                length (m ! i)
                = length (cols_from 0 (n_params_per_dim env) (length (policy_outputs ! i))))"
  define n where "n = length policy_outputs"
  define l2 where "l2 = (case mask_invalid_actions of
        None \<Rightarrow> slice_cols 0 (n_params_per_dim env) policy_outputs
      | Some m \<Rightarrow> masked_fill (slice_cols 0 (n_params_per_dim env) policy_outputs) m (- loginf))"
  define po1 where "po1 = set_slice_cols 0 (n_params_per_dim env) policy_outputs l2"
  have fp: "slice_cols 0 (n_params_per_dim env) po1 = l2"
    "(case mask_invalid_actions of None \<Rightarrow> l2 | Some m \<Rightarrow> masked_fill l2 m (- loginf)) = l2"
    "set_slice_cols 0 (n_params_per_dim env) po1 l2 = po1" "length po1 = n"
    unfolding l2_def po1_def n_def
    by (rule masked_logits_fixpoint[OF sh, of "- loginf"])+
  define dimensions where "dimensions = map int sampled_dimensions"
  define noeos where "noeos = map (\<lambda>d. d \<noteq> eos env) dimensions"
  define idx where "idx = select [0..<n] noeos"
  define dsel where "dsel = select dimensions noeos"
  define distr where "distr = VonMises (gather2 (slice_cols 1 (n_params_per_dim env) po1) idx dsel)
       (map (\<lambda>c. exp c + vonmises_concentration_epsilon) (gather2 (slice_cols 2 (n_params_per_dim env) po1) idx dsel))"
  define angles where "angles =
     (if 0 < length dsel then scatter (replicate n 0) idx sampled_angles else replicate n 0)"
  define lp_ang where "lp_ang =
     (if 0 < length dsel then scatter (replicate n 0) idx (log_prob T distr (gather angles idx))
      else replicate n 0)"
  define lp_dim where "lp_dim = gather2 (map (logsoftmax T) l2) [0..<n] dimensions"
  have len: "length dimensions = n" "length noeos = n" "length angles = n" "length lp_ang = n"
    "length lp_dim = n"
    using ld by (simp_all add: dimensions_def noeos_def angles_def lp_ang_def lp_dim_def
        length_scatter n_def gather2_def)
  have S: "sample_actions T env policy_outputs ''policy'' mask_invalid_actions 1 loginf
           sampled_dimensions sampled_angles
      = (Inr (zip dimensions angles, map (\<lambda>(a, b). a + b) (zip lp_dim lp_ang)), po1)"
    by (simp add: sample_actions_def Let_def n_def l2_def po1_def dimensions_def noeos_def
        idx_def dsel_def distr_def angles_def lp_ang_def lp_dim_def)
  have unz: "map fst (zip dimensions angles) = dimensions" "map snd (zip dimensions angles) = angles"
    using len by simp_all
  have lg: "\<And>x rows cols. length (gather2 x rows cols) = min (length rows) (length cols)"
    by (simp add: gather2_def)
  have nf: "\<And>as bs. length as = n \<Longrightarrow> length bs = n \<Longrightarrow>
      map (\<lambda>(a, b, c). c) (zip as (zip bs noeos)) = noeos"
    using len by (intro nth_equalityI) simp_all
  have az: "\<And>xs. map (\<lambda>(a, b, y). a + b + y) (zip xs (replicate n (0::real, 0::real)))
      = map (\<lambda>(a, b). a + b) (zip xs (replicate n 0))"
    by (intro nth_equalityI) simp_all
  have G: "get_logprobs T env po1 True (zip dimensions angles) states_target
                mask_invalid_actions loginf
      = (map (\<lambda>(a, b). a + b) (zip lp_dim lp_ang), po1)"
  proof (cases "\<exists>b\<in>set noeos. b")
    case True
    then have d: "0 < length dsel" using select_nonempty[of dimensions noeos] len by (simp add: dsel_def)
    show ?thesis
      unfolding get_logprobs_def Let_def
      apply (simp only: unz fp noeos_def[symmetric])
      using True d ls len
      by (simp add: nf lg n_def[symmetric] add_zeros length_scatter
          idx_def[symmetric] dsel_def[symmetric] distr_def lp_ang_def lp_dim_def)
  next
    case False
    then have d: "\<not> 0 < length dsel" using select_nonempty[of dimensions noeos] len by (simp add: dsel_def)
    show ?thesis
      unfolding get_logprobs_def Let_def
      apply (simp only: unz fp noeos_def[symmetric])
      using False d ls len
      by (auto simp add: nf lg n_def[symmetric] add_zeros length_scatter az
          idx_def[symmetric] dsel_def[symmetric] distr_def lp_ang_def lp_dim_def)
  qed
  show "case sample_actions T env policy_outputs ''policy'' mask_invalid_actions 1 loginf
           sampled_dimensions sampled_angles of
      (res, policy_outputs1) \<Rightarrow>
        (\<exists>actions logprobs.
           res = Inr (actions, logprobs)
           \<and> length logprobs = length policy_outputs
           \<and> get_logprobs T env policy_outputs1 True actions states_target
                mask_invalid_actions loginf
               = (logprobs, policy_outputs1))"
    using G len by (simp add: S n_def)
qed

lemma scatter_Nil: "scatter xs [] vs = xs"
  by (simp add: scatter_def)

lemma scatter_Cons: "scatter xs (i # idx) (v # vs) = scatter (xs[i := v]) idx vs"
  by (simp add: scatter_def)

lemma cols_from_9:
  "cols_from 0 4 (Suc (Suc (Suc (Suc (Suc (Suc (Suc (Suc (Suc 0))))))))) = [0, 4, 8]"
  "cols_from (Suc 0) 4 (Suc (Suc (Suc (Suc (Suc (Suc (Suc (Suc (Suc 0))))))))) = [1, 5]"
  "cols_from 2 4 (Suc (Suc (Suc (Suc (Suc (Suc (Suc (Suc (Suc 0))))))))) = [2, 6]"
  by code_simp+

lemma sample_actions_example:
  "sample_actions real_torch (snd torus21)
       [[1, 2, 3, 4, 5, 6, 7, 8, 9], [1, 2, 3, 4, 5, 6, 7, 8, 9]] ''policy''
       (Some [[False, False, True], [True, True, False]]) 1 1000 [0, 2] [pi / 2]
   = (Inr ([(0, pi / 2), (2, 0)],
           [logsoftmax real_torch [1, 5, - 1000] ! 0
              + vonmises_log_prob real_torch 2 (exp 3 + 1 / 1000) (pi / 2),
            logsoftmax real_torch [- 1000, - 1000, 9] ! 2 + 0]),
      [[1, 2, 3, 4, 5, 6, 7, 8, - 1000], [- 1000, 2, 3, 4, - 1000, 6, 7, 8, 9]])"
  by (simp add: sample_actions_def Let_def torus21_eq slice_cols_def set_slice_cols_def
      cols_from_9 gather_def gather2_def tindex_def scatter_Nil scatter_Cons length_scatter
      masked_fill_def select_def upt_rec vonmises_concentration_epsilon_def)

theorem sample_actions_logprobs_agree_witness:
  "length [0, 2 :: nat] = length [[1, 2, 3, 4, 5, 6, 7, 8, 9], [1, 2, 3, 4, 5, 6, 7, 8, 9 :: real]]
   \<and> length [[pi / 2, 0, 1], [0, 0, 1 :: real]]
       = length [[1, 2, 3, 4, 5, 6, 7, 8, 9], [1, 2, 3, 4, 5, 6, 7, 8, 9 :: real]]
   \<and> length [[False, False, True], [True, True, False]]
       = length [[1, 2, 3, 4, 5, 6, 7, 8, 9], [1, 2, 3, 4, 5, 6, 7, 8, 9 :: real]]
   \<and> length ([[False, False, True], [True, True, False]] ! 0)
       = length (cols_from 0 (n_params_per_dim (snd torus21))
           (length ([[1, 2, 3, 4, 5, 6, 7, 8, 9], [1, 2, 3, 4, 5, 6, 7, 8, 9 :: real]] ! 0)))
   \<and> length ([[False, False, True], [True, True, False]] ! 1)
       = length (cols_from 0 (n_params_per_dim (snd torus21))
           (length ([[1, 2, 3, 4, 5, 6, 7, 8, 9], [1, 2, 3, 4, 5, 6, 7, 8, 9 :: real]] ! 1)))
   \<and> sample_actions real_torch (snd torus21)
        [[1, 2, 3, 4, 5, 6, 7, 8, 9], [1, 2, 3, 4, 5, 6, 7, 8, 9]] ''policy''
        (Some [[False, False, True], [True, True, False]]) 1 1000 [0, 2] [pi / 2]
      = (Inr ([(0, pi / 2), (2, 0)],
           [logsoftmax real_torch [1, 5, - 1000] ! 0
              + vonmises_log_prob real_torch 2 (exp 3 + 1 / 1000) (pi / 2),
            logsoftmax real_torch [- 1000, - 1000, 9] ! 2 + 0]),
         [[1, 2, 3, 4, 5, 6, 7, 8, - 1000], [- 1000, 2, 3, 4, - 1000, 6, 7, 8, 9]])
   \<and> get_logprobs real_torch (snd torus21)
        [[1, 2, 3, 4, 5, 6, 7, 8, - 1000], [- 1000, 2, 3, 4, - 1000, 6, 7, 8, 9]] True
        [(0, pi / 2), (2, 0)] [[pi / 2, 0, 1], [0, 0, 1]]
        (Some [[False, False, True], [True, True, False]]) 1000
      = ([logsoftmax real_torch [1, 5, - 1000] ! 0
              + vonmises_log_prob real_torch 2 (exp 3 + 1 / 1000) (pi / 2),
          logsoftmax real_torch [- 1000, - 1000, 9] ! 2 + 0],
         [[1, 2, 3, 4, 5, 6, 7, 8, - 1000], [- 1000, 2, 3, 4, - 1000, 6, 7, 8, 9]])"
  using sample_actions_logprobs_agree
      [where sampled_dimensions = "[0, 2]"
         and policy_outputs = "[[1, 2, 3, 4, 5, 6, 7, 8, 9], [1, 2, 3, 4, 5, 6, 7, 8, 9]]"
         and states_target = "[[pi / 2, 0, 1], [0, 0, 1]]"
         and mask_invalid_actions = "Some [[False, False, True], [True, True, False]]"
         and env = "snd torus21" and T = real_torch and loginf = 1000
         and sampled_angles = "[pi / 2]"]
  by (simp add: sample_actions_example)
     (simp add: torus21_eq cols_from_9 less_Suc_eq numeral_2_eq_2)

end
